theory Spec2Isabelle
  imports Main
begin

section \<open>The search-tree node of \<open>synplan/mcts/node.py\<close>\<close>

subsection \<open>Python values and the failures of the built-in operations\<close>

text \<open>
  Both constructor parameters are annotated \<open>tuple\<close> and default to \<open>None\<close>, so an
  argument is either \<open>None\<close> or a tuple. The elements of a tuple (the precursors) are
  opaque to the class: it never inspects them, so their type is a parameter.
\<close>

datatype 'a pyval = PyNone | PyTuple "'a list"

text \<open>
  \<open>curr_precursor\<close> holds either one element of the tuple (\<open>self.precursors_to_expand[0]\<close>)
  or a tuple of its own (\<open>tuple()\<close>).
\<close>

datatype 'a slot = Elem 'a | Tup "'a list"

text \<open>
  The exceptions the code can raise: \<open>len(None)\<close> and \<open>None[i]\<close> raise \<open>TypeError\<close>,
  an index out of range raises \<open>IndexError\<close>, reading an attribute that was never
  assigned raises \<open>AttributeError\<close>.
\<close>

datatype error = TypeError | IndexError | AttributeError

definition bind_err :: "error + 'a \<Rightarrow> ('a \<Rightarrow> error + 'b) \<Rightarrow> error + 'b" where
  "bind_err m f = (case m of Inl e \<Rightarrow> Inl e | Inr v \<Rightarrow> f v)"

text \<open>\<open>len(v)\<close>\<close>

fun py_len :: "'a pyval \<Rightarrow> error + nat" where
  "py_len PyNone = Inl TypeError"
| "py_len (PyTuple xs) = Inr (length xs)"

text \<open>\<open>v[i]\<close> for a non-negative index \<open>i\<close>\<close>

fun py_item :: "'a pyval \<Rightarrow> nat \<Rightarrow> error + 'a" where
  "py_item PyNone i = Inl TypeError"
| "py_item (PyTuple xs) i = (if i < length xs then Inr (xs ! i) else Inl IndexError)"

text \<open>\<open>v[i:]\<close> for a non-negative \<open>i\<close>; a slice of a tuple never raises.\<close>

fun py_slice_from :: "'a pyval \<Rightarrow> nat \<Rightarrow> error + 'a pyval" where
  "py_slice_from PyNone i = Inl TypeError"
| "py_slice_from (PyTuple xs) i = Inr (PyTuple (drop i xs))"

text \<open>
  The text an f-string inserts for a value: \<open>None\<close>, or the tuple's \<open>repr\<close>, which is
  built from the \<open>repr\<close> of each element (the parameter \<open>r\<close>) and writes a one-element
  tuple with a trailing comma.
\<close>

fun join_str :: "string \<Rightarrow> string list \<Rightarrow> string" where
  "join_str sep [] = []"
| "join_str sep [s] = s"
| "join_str sep (s # t # ss) = s @ sep @ join_str sep (t # ss)"

fun py_format :: "('a \<Rightarrow> string) \<Rightarrow> 'a pyval \<Rightarrow> string" where
  "py_format r PyNone = ''None''"
| "py_format r (PyTuple [x]) = ''('' @ r x @ '',)''"
| "py_format r (PyTuple xs) = ''('' @ join_str '', '' (map r xs) @ '')''"

subsection \<open>The class \<open>Node\<close>\<close>

text \<open>
  An instance is its attributes. An attribute exists once it has been assigned, so each
  one is optional: \<open>None\<close> here means that the instance has no such attribute (which is
  not the Python value \<open>None\<close>, written \<open>Some PyNone\<close>).
\<close>

record 'a Node =
  precursors_to_expand :: "'a pyval option"
  new_precursors :: "'a pyval option"
  curr_precursor :: "'a slot option"
  next_precursor :: "'a pyval option"

text \<open>The instance before \<open>__init__\<close> has run.\<close>

definition blank :: "'a Node" where
  "blank = \<lparr>precursors_to_expand = None, new_precursors = None,
            curr_precursor = None, next_precursor = None\<rparr>"

text \<open>Reading an attribute: \<open>self.name\<close>.\<close>

definition getattr :: "'v option \<Rightarrow> error + 'v" where
  "getattr a = (case a of None \<Rightarrow> Inl AttributeError | Some v \<Rightarrow> Inr v)"

text \<open>
  \<open>Node.__init__\<close>, applied to a fresh instance. The two arguments are stored first; the
  length test follows, and an exception there leaves the caller without an instance.
\<close>

definition Node_init :: "'a pyval \<Rightarrow> 'a pyval \<Rightarrow> error + 'a Node" where
  "Node_init pte np =
     (let self = blank\<lparr>precursors_to_expand := Some pte\<rparr>;
          self = self\<lparr>new_precursors := Some np\<rparr>
      in bind_err (getattr (precursors_to_expand self)) (\<lambda>p.
         bind_err (py_len p) (\<lambda>n.
           if n = 0 then Inr (self\<lparr>curr_precursor := Some (Tup [])\<rparr>)
           else
             bind_err (py_item p 0) (\<lambda>x.
             let self = self\<lparr>curr_precursor := Some (Elem x)\<rparr>
             in bind_err (py_slice_from p 1) (\<lambda>t.
                Inr (self\<lparr>next_precursor := Some t\<rparr>))))))"

text \<open>
  The call \<open>Node(...)\<close>: a parameter that the caller leaves out takes its default,
  \<open>None\<close>.
\<close>

definition Node_call :: "'a pyval option \<Rightarrow> 'a pyval option \<Rightarrow> error + 'a Node" where
  "Node_call a b =
     Node_init (case a of None \<Rightarrow> PyNone | Some v \<Rightarrow> v)
               (case b of None \<Rightarrow> PyNone | Some v \<Rightarrow> v)"

text \<open>
  The methods receive \<open>self\<close> and could assign to its attributes, so each one returns its
  result together with the instance as it leaves it.
\<close>

text \<open>\<open>Node.__len__\<close>\<close>

definition Node_len :: "'a Node \<Rightarrow> (error + nat) \<times> 'a Node" where
  "Node_len self = (bind_err (getattr (precursors_to_expand self)) py_len, self)"

text \<open>\<open>Node.__repr__\<close>; \<open>r\<close> is the \<open>repr\<close> of the elements.\<close>

definition Node_repr :: "('a \<Rightarrow> string) \<Rightarrow> 'a Node \<Rightarrow> (error + string) \<times> 'a Node" where
  "Node_repr r self =
     (bind_err (getattr (new_precursors self)) (\<lambda>np.
      bind_err (getattr (precursors_to_expand self)) (\<lambda>pte.
        Inr (''New precursors: '' @ py_format r np @ [CHR 0x0A] @
             ''Precursors to expand: '' @ py_format r pte @ [CHR 0x0A]))),
      self)"

text \<open>\<open>Node.is_solved\<close>\<close>

definition is_solved :: "'a Node \<Rightarrow> (error + bool) \<times> 'a Node" where
  "is_solved self =
     (bind_err (getattr (precursors_to_expand self)) (\<lambda>p.
      bind_err (py_len p) (\<lambda>n. Inr (n = 0))),
      self)"

section \<open>What construction produces\<close>

lemma Node_init_None: "Node_init PyNone np = Inl TypeError"
  by (simp add: Node_init_def blank_def getattr_def bind_err_def)

lemma Node_init_Nil:
  "Node_init (PyTuple []) np =
     Inr \<lparr>precursors_to_expand = Some (PyTuple []), new_precursors = Some np,
          curr_precursor = Some (Tup []), next_precursor = None\<rparr>"
  by (simp add: Node_init_def blank_def getattr_def bind_err_def)

lemma Node_init_Cons:
  "Node_init (PyTuple (x # xs)) np =
     Inr \<lparr>precursors_to_expand = Some (PyTuple (x # xs)), new_precursors = Some np,
          curr_precursor = Some (Elem x), next_precursor = Some (PyTuple xs)\<rparr>"
  by (simp add: Node_init_def blank_def getattr_def bind_err_def)

lemma Node_init_Inr_cases:
  assumes "Node_init pte np = Inr node"
  obtains P where "pte = PyTuple P"
    and "precursors_to_expand node = Some (PyTuple P)"
    and "new_precursors node = Some np"
proof (cases pte)
  case PyNone
  with assms show ?thesis by (simp add: Node_init_None)
next
  case (PyTuple P)
  show ?thesis
  proof (cases P)
    case Nil
    with PyTuple assms that show ?thesis by (auto simp: Node_init_Nil)
  next
    case (Cons x xs)
    with PyTuple assms that show ?thesis by (auto simp: Node_init_Cons)
  qed
qed

lemma Node_init_tuple:
  "\<exists>node. Node_init (PyTuple P) np = Inr node
      \<and> precursors_to_expand node = Some (PyTuple P) \<and> new_precursors node = Some np"
  by (cases P) (simp_all add: Node_init_Nil Node_init_Cons)

lemma Node_init_Inl:
  assumes "Node_init pte np = Inl e"
  shows "e = TypeError \<and> pte = PyNone"
proof (cases pte)
  case PyNone
  with assms show ?thesis by (simp add: Node_init_None)
next
  case (PyTuple P)
  with assms Node_init_tuple [of P np] show ?thesis by auto
qed

lemma Node_len_tuple:
  "precursors_to_expand node = Some (PyTuple P) \<Longrightarrow> Node_len node = (Inr (length P), node)"
  by (simp add: Node_len_def getattr_def bind_err_def)

lemma is_solved_tuple:
  "precursors_to_expand node = Some (PyTuple P) \<Longrightarrow> is_solved node = (Inr (P = []), node)"
  by (simp add: is_solved_def getattr_def bind_err_def)

section \<open>Construction from a non-empty tuple\<close>

text \<open>
  Claim C1. For every non-empty tuple \<open>P\<close> of pending precursors and every value of the
  produced argument, construction succeeds, \<open>curr_precursor\<close> is the first element
  \<open>P[0]\<close>, \<open>next_precursor\<close> is the rest \<open>P[1:]\<close>, and the first element put in front
  of the rest is \<open>P\<close> again, in the same order.
\<close>

theorem Node_init_head_and_rest:
  assumes "P \<noteq> []"
  shows "\<exists>node. Node_init (PyTuple P) np = Inr node
           \<and> precursors_to_expand node = Some (PyTuple P)
           \<and> curr_precursor node = Some (Elem (P ! 0))
           \<and> next_precursor node = Some (PyTuple (drop 1 P))
           \<and> (P ! 0) # drop 1 P = P"
proof -
  from assms obtain x xs where P: "P = x # xs" by (cases P) auto
  show ?thesis unfolding P by (simp add: Node_init_Cons)
qed

theorem Node_init_head_and_rest_witness:
  "[''M1'', ''M2'', ''M3''] \<noteq> []
   \<and> (\<exists>node. Node_init (PyTuple [''M1'', ''M2'', ''M3'']) (PyTuple [''X'']) = Inr node
         \<and> precursors_to_expand node = Some (PyTuple [''M1'', ''M2'', ''M3''])
         \<and> curr_precursor node = Some (Elem ''M1'')
         \<and> next_precursor node = Some (PyTuple [''M2'', ''M3'']))"
proof -
  have ne: "[''M1'', ''M2'', ''M3''] \<noteq> []" by simp
  show ?thesis
    using ne Node_init_head_and_rest [OF ne, of "PyTuple [''X'']"] by simp
qed

section \<open>The queries on a constructed node\<close>

text \<open>
  Claim C2. On every node that construction returned, \<open>is_solved\<close> does not fail, leaves
  the node as it was, and answers true exactly when \<open>precursors_to_expand\<close> is the empty
  tuple. Its answer is determined by that attribute alone: two instances that agree on
  it get the same answer, whatever their other attributes are.
\<close>

theorem is_solved_iff_empty:
  assumes "Node_init pte np = Inr node"
  shows "(\<exists>P. precursors_to_expand node = Some (PyTuple P)
              \<and> is_solved node = (Inr (P = []), node))
         \<and> (\<forall>other. precursors_to_expand other = precursors_to_expand node
              \<longrightarrow> fst (is_solved other) = fst (is_solved node))"
proof -
  from assms obtain P where "precursors_to_expand node = Some (PyTuple P)"
    by (rule Node_init_Inr_cases)
  then have "\<exists>P. precursors_to_expand node = Some (PyTuple P)
                \<and> is_solved node = (Inr (P = []), node)"
    by (simp add: is_solved_tuple)
  moreover have "\<forall>other. precursors_to_expand other = precursors_to_expand node
                   \<longrightarrow> fst (is_solved other) = fst (is_solved node)"
    by (simp add: is_solved_def)
  ultimately show ?thesis by blast
qed

theorem is_solved_iff_empty_witness:
  "Node_init (PyTuple [''Target'']) (PyTuple []) =
     Inr \<lparr>precursors_to_expand = Some (PyTuple [''Target'']), new_precursors = Some (PyTuple []),
          curr_precursor = Some (Elem ''Target''), next_precursor = Some (PyTuple [])\<rparr>
   \<and> fst (is_solved \<lparr>precursors_to_expand = Some (PyTuple [''Target'']),
                      new_precursors = Some (PyTuple []),
                      curr_precursor = Some (Elem ''Target''),
                      next_precursor = Some (PyTuple [])\<rparr>) = Inr False
   \<and> fst (is_solved \<lparr>precursors_to_expand = Some (PyTuple [''Target'']),
                      new_precursors = None, curr_precursor = None,
                      next_precursor = None\<rparr>) = Inr False"
proof -
  let ?n = "\<lparr>precursors_to_expand = Some (PyTuple [''Target'']),
             new_precursors = Some (PyTuple []),
             curr_precursor = Some (Elem ''Target''),
             next_precursor = Some (PyTuple [])\<rparr>"
  let ?m = "\<lparr>precursors_to_expand = Some (PyTuple [''Target'']),
             new_precursors = None, curr_precursor = None,
             next_precursor = None :: string pyval option\<rparr>"
  have c: "Node_init (PyTuple [''Target'']) (PyTuple []) = Inr ?n"
    by (simp add: Node_init_Cons)
  from is_solved_iff_empty [OF c]
  have "fst (is_solved ?n) = Inr False" and "fst (is_solved ?m) = fst (is_solved ?n)"
    by auto
  with c show ?thesis by simp
qed

text \<open>
  Claim C5. On every node that construction returned, the size query \<open>__len__\<close> returns
  the number of elements of the pending tuple the node was built from (0 for the empty
  tuple), and leaves the node as it was.
\<close>

theorem Node_len_counts_pending:
  assumes "Node_init pte np = Inr node"
  shows "\<exists>P. pte = PyTuple P \<and> precursors_to_expand node = Some (PyTuple P)
             \<and> Node_len node = (Inr (length P), node)"
proof -
  from assms obtain P where "pte = PyTuple P"
    and "precursors_to_expand node = Some (PyTuple P)"
    by (rule Node_init_Inr_cases)
  then show ?thesis by (simp add: Node_len_tuple)
qed

theorem Node_len_counts_pending_witness:
  "Node_init (PyTuple [''M1'', ''M2'', ''M3'']) (PyTuple [''X'']) =
     Inr \<lparr>precursors_to_expand = Some (PyTuple [''M1'', ''M2'', ''M3'']),
          new_precursors = Some (PyTuple [''X'']),
          curr_precursor = Some (Elem ''M1''),
          next_precursor = Some (PyTuple [''M2'', ''M3''])\<rparr>
   \<and> fst (Node_len \<lparr>precursors_to_expand = Some (PyTuple [''M1'', ''M2'', ''M3'']),
                     new_precursors = Some (PyTuple [''X'']),
                     curr_precursor = Some (Elem ''M1''),
                     next_precursor = Some (PyTuple [''M2'', ''M3''])\<rparr>) = Inr 3"
proof -
  let ?n = "\<lparr>precursors_to_expand = Some (PyTuple [''M1'', ''M2'', ''M3'']),
             new_precursors = Some (PyTuple [''X'']),
             curr_precursor = Some (Elem ''M1''),
             next_precursor = Some (PyTuple [''M2'', ''M3''])\<rparr>"
  have c: "Node_init (PyTuple [''M1'', ''M2'', ''M3'']) (PyTuple [''X'']) = Inr ?n"
    by (simp add: Node_init_Cons)
  from Node_len_counts_pending [OF c] have "fst (Node_len ?n) = Inr 3" by auto
  with c show ?thesis by simp
qed

text \<open>
  Claim C6. Two nodes built from the same pending argument and any two produced
  arguments give the same answer to \<open>is_solved\<close> and the same answer to the size query.
\<close>

theorem queries_ignore_new_precursors:
  assumes "Node_init pte np1 = Inr a" and "Node_init pte np2 = Inr b"
  shows "fst (is_solved a) = fst (is_solved b) \<and> fst (Node_len a) = fst (Node_len b)"
proof -
  from assms(1) obtain P where "pte = PyTuple P" and "precursors_to_expand a = Some (PyTuple P)"
    by (rule Node_init_Inr_cases)
  moreover from assms(2) obtain Q where "pte = PyTuple Q"
    and "precursors_to_expand b = Some (PyTuple Q)"
    by (rule Node_init_Inr_cases)
  ultimately have "precursors_to_expand a = precursors_to_expand b" by simp
  then show ?thesis by (simp add: is_solved_def Node_len_def)
qed

theorem queries_ignore_new_precursors_witness:
  "Node_init (PyTuple [''M1'', ''M2'']) (PyTuple [''X'']) =
     Inr \<lparr>precursors_to_expand = Some (PyTuple [''M1'', ''M2'']),
          new_precursors = Some (PyTuple [''X'']),
          curr_precursor = Some (Elem ''M1''), next_precursor = Some (PyTuple [''M2''])\<rparr>
   \<and> Node_init (PyTuple [''M1'', ''M2'']) PyNone =
     Inr \<lparr>precursors_to_expand = Some (PyTuple [''M1'', ''M2'']),
          new_precursors = Some PyNone,
          curr_precursor = Some (Elem ''M1''), next_precursor = Some (PyTuple [''M2''])\<rparr>
   \<and> fst (is_solved \<lparr>precursors_to_expand = Some (PyTuple [''M1'', ''M2'']),
                      new_precursors = Some (PyTuple [''X'']),
                      curr_precursor = Some (Elem ''M1''),
                      next_precursor = Some (PyTuple [''M2''])\<rparr>)
     = fst (is_solved \<lparr>precursors_to_expand = Some (PyTuple [''M1'', ''M2'']),
                        new_precursors = Some PyNone,
                        curr_precursor = Some (Elem ''M1''),
                        next_precursor = Some (PyTuple [''M2''])\<rparr>)
   \<and> fst (Node_len \<lparr>precursors_to_expand = Some (PyTuple [''M1'', ''M2'']),
                     new_precursors = Some (PyTuple [''X'']),
                     curr_precursor = Some (Elem ''M1''),
                     next_precursor = Some (PyTuple [''M2''])\<rparr>)
     = fst (Node_len \<lparr>precursors_to_expand = Some (PyTuple [''M1'', ''M2'']),
                       new_precursors = Some PyNone,
                       curr_precursor = Some (Elem ''M1''),
                       next_precursor = Some (PyTuple [''M2''])\<rparr>)"
proof -
  let ?a = "\<lparr>precursors_to_expand = Some (PyTuple [''M1'', ''M2'']),
             new_precursors = Some (PyTuple [''X'']),
             curr_precursor = Some (Elem ''M1''), next_precursor = Some (PyTuple [''M2''])\<rparr>"
  let ?b = "\<lparr>precursors_to_expand = Some (PyTuple [''M1'', ''M2'']),
             new_precursors = Some PyNone,
             curr_precursor = Some (Elem ''M1''), next_precursor = Some (PyTuple [''M2''])\<rparr>"
  have ca: "Node_init (PyTuple [''M1'', ''M2'']) (PyTuple [''X'']) = Inr ?a"
    by (simp add: Node_init_Cons)
  have cb: "Node_init (PyTuple [''M1'', ''M2'']) PyNone = Inr ?b"
    by (simp add: Node_init_Cons)
  from queries_ignore_new_precursors [OF ca cb] ca cb show ?thesis by blast
qed

text \<open>
  Claim C8. On every node that construction returned, \<open>is_solved\<close> and the size query
  both succeed, \<open>is_solved\<close> is true exactly when the size is 0, and false exactly when
  the size is greater than 0.
\<close>

theorem is_solved_iff_len_zero:
  assumes "Node_init pte np = Inr node"
  shows "\<exists>b k. fst (is_solved node) = Inr b \<and> fst (Node_len node) = Inr k
               \<and> (b \<longleftrightarrow> k = 0) \<and> (\<not> b \<longleftrightarrow> 0 < k)"
proof -
  from assms obtain P where P: "precursors_to_expand node = Some (PyTuple P)"
    by (rule Node_init_Inr_cases)
  have "fst (is_solved node) = Inr (P = [])" using P by (simp add: is_solved_tuple)
  moreover have "fst (Node_len node) = Inr (length P)" using P by (simp add: Node_len_tuple)
  ultimately show ?thesis by simp
qed

theorem is_solved_iff_len_zero_witness:
  "Node_init (PyTuple ([] :: string list)) (PyTuple [''A'', ''B'']) =
     Inr \<lparr>precursors_to_expand = Some (PyTuple []), new_precursors = Some (PyTuple [''A'', ''B'']),
          curr_precursor = Some (Tup []), next_precursor = None\<rparr>
   \<and> (\<exists>b k. fst (is_solved \<lparr>precursors_to_expand = Some (PyTuple ([] :: string list)),
                             new_precursors = Some (PyTuple [''A'', ''B'']),
                             curr_precursor = Some (Tup []), next_precursor = None\<rparr>) = Inr b
          \<and> fst (Node_len \<lparr>precursors_to_expand = Some (PyTuple ([] :: string list)),
                            new_precursors = Some (PyTuple [''A'', ''B'']),
                            curr_precursor = Some (Tup []), next_precursor = None\<rparr>) = Inr k
          \<and> (b \<longleftrightarrow> k = 0) \<and> (\<not> b \<longleftrightarrow> 0 < k))"
proof -
  let ?n = "\<lparr>precursors_to_expand = Some (PyTuple ([] :: string list)),
             new_precursors = Some (PyTuple [''A'', ''B'']),
             curr_precursor = Some (Tup []), next_precursor = None\<rparr>"
  have c: "Node_init (PyTuple ([] :: string list)) (PyTuple [''A'', ''B'']) = Inr ?n"
    by (simp add: Node_init_Nil)
  from is_solved_iff_len_zero [OF c] c show ?thesis by blast
qed

section \<open>Absent arguments\<close>

text \<open>
  Claim C3. Construction with the pending argument absent (passed as \<open>None\<close>, or left
  out so that it defaults to \<open>None\<close>) raises: \<open>len\<close> of \<open>None\<close> is a \<open>TypeError\<close>, and
  this is the only way construction fails. Construction with the produced argument
  absent, and a pending tuple given, does not raise.
\<close>

theorem Node_init_absent_arguments:
  "Node_init PyNone np = Inl TypeError
   \<and> Node_call None b = Inl TypeError
   \<and> (\<exists>node. Node_init (PyTuple P) PyNone = Inr node)
   \<and> (\<exists>node. Node_call (Some (PyTuple P)) None = Inr node)
   \<and> (\<forall>e. Node_init pte np' = Inl e \<longrightarrow> e = TypeError \<and> pte = PyNone)"
proof -
  have "\<exists>node. Node_init (PyTuple P) PyNone = Inr node"
    using Node_init_tuple [of P PyNone] by blast
  moreover have "\<forall>e. Node_init pte np' = Inl e \<longrightarrow> e = TypeError \<and> pte = PyNone"
    using Node_init_Inl by blast
  ultimately show ?thesis by (simp add: Node_call_def Node_init_None)
qed

theorem Node_init_absent_arguments_witness:
  "Node_init (PyNone :: string pyval) (PyTuple [''A'']) = Inl TypeError
   \<and> Node_call (None :: string pyval option) None = Inl TypeError
   \<and> (\<exists>node. Node_init (PyTuple [''Target'']) PyNone = Inr node)"
  using Node_init_absent_arguments
    [of "PyTuple [''A'']" None "[''Target'']" "PyNone :: string pyval" "PyTuple [''A'']"]
  by blast

text \<open>
  Claim C10. When the caller leaves the produced argument out and gives a pending tuple,
  construction succeeds and \<open>new_precursors\<close> holds \<open>None\<close>, not the empty tuple. In
  general the attribute holds the argument exactly as it was passed.
\<close>

theorem omitted_new_precursors_is_None:
  "(\<exists>node. Node_call (Some (PyTuple P)) None = Inr node
       \<and> new_precursors node = Some PyNone
       \<and> new_precursors node \<noteq> Some (PyTuple []))
   \<and> (\<exists>node. Node_init (PyTuple P) np = Inr node \<and> new_precursors node = Some np)"
proof -
  from Node_init_tuple [of P PyNone] obtain node where
    "Node_init (PyTuple P) PyNone = Inr node" and "new_precursors node = Some PyNone"
    by blast
  then have "\<exists>node. Node_call (Some (PyTuple P)) None = Inr node
       \<and> new_precursors node = Some PyNone
       \<and> new_precursors node \<noteq> Some (PyTuple [])"
    by (simp add: Node_call_def)
  moreover from Node_init_tuple [of P np]
  have "\<exists>node. Node_init (PyTuple P) np = Inr node \<and> new_precursors node = Some np"
    by blast
  ultimately show ?thesis by blast
qed

section \<open>Construction from the empty tuple\<close>

text \<open>
  Claim C7. Construction from the empty pending tuple succeeds; \<open>curr_precursor\<close> is
  then the empty tuple (a tuple, not an element), the node has no \<open>next_precursor\<close>
  attribute, \<open>is_solved\<close> answers true and the size query answers 0.
\<close>

theorem Node_init_empty_pending:
  "Node_init (PyTuple []) np =
     Inr \<lparr>precursors_to_expand = Some (PyTuple []), new_precursors = Some np,
          curr_precursor = Some (Tup []), next_precursor = None\<rparr>
   \<and> (\<forall>x. Some (Tup []) \<noteq> Some (Elem x))
   \<and> fst (is_solved \<lparr>precursors_to_expand = Some (PyTuple []), new_precursors = Some np,
                      curr_precursor = Some (Tup []), next_precursor = None\<rparr>) = Inr True
   \<and> fst (Node_len \<lparr>precursors_to_expand = Some (PyTuple []), new_precursors = Some np,
                     curr_precursor = Some (Tup []), next_precursor = None\<rparr>) = Inr 0"
  by (simp add: Node_init_Nil is_solved_tuple Node_len_tuple)

text \<open>
  Claim C4, as stated, fails: the node built from the empty pending tuple has no
  \<open>next_precursor\<close> attribute, and reading it raises \<open>AttributeError\<close>.
\<close>

theorem next_precursor_access_counterexample:
  "Node_init (PyTuple ([] :: string list)) (PyTuple []) =
     Inr \<lparr>precursors_to_expand = Some (PyTuple []), new_precursors = Some (PyTuple []),
          curr_precursor = Some (Tup []), next_precursor = None\<rparr>
   \<and> getattr (next_precursor
        \<lparr>precursors_to_expand = Some (PyTuple ([] :: string list)),
         new_precursors = Some (PyTuple []),
         curr_precursor = Some (Tup []), next_precursor = None\<rparr>) = Inl AttributeError"
  by (simp add: Node_init_Nil getattr_def)

text \<open>
  Claim C4, amended. On every node that construction returned, the size query, \<open>is_solved\<close>
  and reading \<open>precursors_to_expand\<close>, \<open>new_precursors\<close> and \<open>curr_precursor\<close> never fail.
  Reading \<open>next_precursor\<close> succeeds when the pending tuple was non-empty and raises
  \<open>AttributeError\<close> when it was empty.
\<close>

theorem constructed_node_access:
  assumes "Node_init pte np = Inr node"
  shows "(\<exists>k. fst (Node_len node) = Inr k)
       \<and> (\<exists>b. fst (is_solved node) = Inr b)
       \<and> getattr (precursors_to_expand node) = Inr pte
       \<and> getattr (new_precursors node) = Inr np
       \<and> (\<exists>c. getattr (curr_precursor node) = Inr c)
       \<and> (if pte = PyTuple [] then getattr (next_precursor node) = Inl AttributeError
          else (\<exists>t. getattr (next_precursor node) = Inr (PyTuple t)))"
proof (cases pte)
  case PyNone
  with assms show ?thesis by (simp add: Node_init_None)
next
  case (PyTuple P)
  show ?thesis
  proof (cases P)
    case Nil
    with PyTuple assms have "node = \<lparr>precursors_to_expand = Some (PyTuple []),
        new_precursors = Some np, curr_precursor = Some (Tup []), next_precursor = None\<rparr>"
      by (simp add: Node_init_Nil)
    with PyTuple Nil show ?thesis
      by (auto simp: getattr_def Node_len_tuple is_solved_tuple)
  next
    case (Cons x xs)
    with PyTuple assms have "node = \<lparr>precursors_to_expand = Some (PyTuple (x # xs)),
        new_precursors = Some np, curr_precursor = Some (Elem x),
        next_precursor = Some (PyTuple xs)\<rparr>"
      by (simp add: Node_init_Cons)
    with PyTuple Cons show ?thesis
      by (auto simp: getattr_def Node_len_tuple is_solved_tuple)
  qed
qed

theorem constructed_node_access_witness:
  "Node_init (PyTuple [''Target'']) (PyTuple []) =
     Inr \<lparr>precursors_to_expand = Some (PyTuple [''Target'']), new_precursors = Some (PyTuple []),
          curr_precursor = Some (Elem ''Target''), next_precursor = Some (PyTuple [])\<rparr>
   \<and> (\<exists>k. fst (Node_len \<lparr>precursors_to_expand = Some (PyTuple [''Target'']),
                          new_precursors = Some (PyTuple []),
                          curr_precursor = Some (Elem ''Target''),
                          next_precursor = Some (PyTuple [])\<rparr>) = Inr k)
   \<and> (\<exists>b. fst (is_solved \<lparr>precursors_to_expand = Some (PyTuple [''Target'']),
                           new_precursors = Some (PyTuple []),
                           curr_precursor = Some (Elem ''Target''),
                           next_precursor = Some (PyTuple [])\<rparr>) = Inr b)"
proof -
  let ?n = "\<lparr>precursors_to_expand = Some (PyTuple [''Target'']),
             new_precursors = Some (PyTuple []),
             curr_precursor = Some (Elem ''Target''),
             next_precursor = Some (PyTuple [])\<rparr>"
  have c: "Node_init (PyTuple [''Target'']) (PyTuple []) = Inr ?n"
    by (simp add: Node_init_Cons)
  from constructed_node_access [OF c] c show ?thesis by blast
qed

section \<open>The queries leave the node as it was\<close>

lemma Node_repr_example:
  "fst (Node_repr (\<lambda>s. [CHR 0x27] @ s @ [CHR 0x27])
         \<lparr>precursors_to_expand = Some (PyTuple [''M1'', ''M2'', ''M3'']),
          new_precursors = Some (PyTuple [''X'']),
          curr_precursor = Some (Elem ''M1''),
          next_precursor = Some (PyTuple [''M2'', ''M3''])\<rparr>)
   = Inr (''New precursors: ('' @ [CHR 0x27] @ ''X'' @ [CHR 0x27] @ '',)'' @ [CHR 0x0A] @
          ''Precursors to expand: ('' @ [CHR 0x27] @ ''M1'' @ [CHR 0x27] @ '', '' @
          [CHR 0x27] @ ''M2'' @ [CHR 0x27] @ '', '' @ [CHR 0x27] @ ''M3'' @ [CHR 0x27] @
          '')'' @ [CHR 0x0A])"
  by (simp add: Node_repr_def getattr_def bind_err_def)

text \<open>
  Claim C9. \<open>__repr__\<close> leaves every attribute of the node as it was, and a second call
  returns what the first call returned; the size query and \<open>is_solved\<close> leave the node as
  it was too.
\<close>

theorem queries_leave_node_unchanged:
  "snd (Node_repr r self) = self
   \<and> fst (Node_repr r (snd (Node_repr r self))) = fst (Node_repr r self)
   \<and> snd (Node_len self) = self
   \<and> snd (is_solved self) = self"
  by (simp add: Node_repr_def Node_len_def is_solved_def)

end
